theory Spec2Isabelle
  imports Main
begin

section \<open>The find-in-page panel of chrome/browser/find\_in\_page\_view.cc\<close>

text \<open>
  A shallow embedding of \<^verbatim>\<open>FindInPageView\<close>: the view's fields and the part of its
  child widgets that the view reads or writes are one record, every method is a function
  from the record to the updated record. Calls that leave the view (\<^verbatim>\<open>MessageBeep\<close>
  and the calls on the \<^verbatim>\<open>FindInPageController\<close>) are appended, in program order, to
  the field \<open>effects\<close>.

  C++ \<^verbatim>\<open>int\<close> is modelled as \<open>int\<close>: the methods below compare and copy the counters,
  and add pixel coordinates far from the 32-bit limits (signed overflow is undefined in C++,
  so the model describes the executions without it). Focus requests, listener
  registration, images and tooltips are not part of the record.
\<close>

subsection \<open>Constants of the file\<close>

definition kWhiteSpaceAfterMatchCountLabel :: int where
  "kWhiteSpaceAfterMatchCountLabel = 3"

definition kMarginLeftOfCloseButton :: int where
  "kMarginLeftOfCloseButton = 5"

definition kMarginRightOfCloseButton :: int where
  "kMarginRightOfCloseButton = 5"

definition kMarginLeftOfFindTextField :: int where
  "kMarginLeftOfFindTextField = 12"

definition kMatchCountExtraWidth :: int where
  "kMatchCountExtraWidth = 9"

definition kMatchCountMinWidth :: int where
  "kMatchCountMinWidth = 30"

datatype SkColor = SkColorSetRGB nat nat nat

definition kTextColorMatchCount :: SkColor where
  "kTextColorMatchCount = SkColorSetRGB 178 178 178"

definition SK_ColorBLACK :: SkColor where
  "SK_ColorBLACK = SkColorSetRGB 0 0 0"

definition kTextColorNoMatch :: SkColor where
  "kTextColorNoMatch = SK_ColorBLACK"

definition kBackgroundColorMatch :: SkColor where
  "kBackgroundColorMatch = SkColorSetRGB 255 255 255"

definition kBackgroundColorNoMatch :: SkColor where
  "kBackgroundColorNoMatch = SkColorSetRGB 255 102 102"

lemmas layout_constants =
  kWhiteSpaceAfterMatchCountLabel_def kMarginLeftOfCloseButton_def
  kMarginRightOfCloseButton_def kMarginLeftOfFindTextField_def
  kMatchCountExtraWidth_def kMatchCountMinWidth_def

lemmas colour_constants =
  kTextColorMatchCount_def SK_ColorBLACK_def kTextColorNoMatch_def
  kBackgroundColorMatch_def kBackgroundColorNoMatch_def

subsection \<open>Data\<close>

text \<open>\<^verbatim>\<open>gfx::Size\<close> and \<^verbatim>\<open>gfx::Rect\<close>.\<close>

record Size =
  size_width :: int
  size_height :: int

record Rect =
  rect_x :: int
  rect_y :: int
  rect_width :: int
  rect_height :: int

text \<open>
  \<^verbatim>\<open>View::SetBounds\<close>, as the rectangle the widget holds afterwards: the four numbers
  as they are passed.
\<close>

definition SetBounds :: "int \<Rightarrow> int \<Rightarrow> int \<Rightarrow> int \<Rightarrow> Rect" where
  "SetBounds x y w h = \<lparr>rect_x = x, rect_y = y, rect_width = w, rect_height = h\<rparr>"

text \<open>
  What the view asks of code that is not in the file: the preferred sizes of its child
  widgets (the label's depends on its text), the height of the middle background bitmap,
  and the localised string \<^verbatim>\<open>IDS_FIND_IN_PAGE_COUNT\<close> with its two placeholders
  filled in (\<^verbatim>\<open>l10n_util::GetStringF\<close>). They are parameters of the model.
\<close>

record Toolkit =
  find_text_pref :: Size
  match_count_text_pref :: "string \<Rightarrow> Size"
  find_previous_pref :: Size
  find_next_pref :: Size
  close_pref :: Size
  dlg_background_middle_height :: int
  find_in_page_count :: "string \<Rightarrow> string \<Rightarrow> string"

text \<open>Calls that leave the view.\<close>

datatype effect =
    MessageBeep
  | set_find_string string
  | StartFinding bool
  | StopFinding bool
  | EndFindSession

text \<open>
  The view. \<open>find_text\<close> is \<^verbatim>\<open>find_text_->GetText()\<close>; \<open>match_count_text\<close>,
  \<open>match_count_background\<close> and \<open>match_count_color\<close> are the label's text, background
  and colour; \<open>bounds\<close> is the view's own rectangle (\<^verbatim>\<open>height()\<close> reads it).
\<close>

record FindInPageView =
  find_text :: string
  find_text_bounds :: Rect
  match_count_text :: string
  match_count_background :: "SkColor option"
  match_count_color :: SkColor
  match_count_bounds :: Rect
  focus_forwarder_bounds :: Rect
  find_previous_enabled :: bool
  find_previous_bounds :: Rect
  find_next_enabled :: bool
  find_next_bounds :: Rect
  close_bounds :: Rect
  bounds :: Rect
  animation_offset :: int
  toolbar_blend :: bool
  match_count :: int
  active_match_ordinal :: int
  effects :: "effect list"

subsection \<open>Constructor\<close>

text \<open>
  \<^verbatim>\<open>FindInPageView::FindInPageView\<close>. A new widget has empty bounds, a new text field
  and a new label have no text, and a new label has no background.
\<close>

definition FindInPageView_ctor :: FindInPageView where
  "FindInPageView_ctor =
     \<lparr>find_text = [],
      find_text_bounds = SetBounds 0 0 0 0,
      match_count_text = [],
      match_count_background = None,
      match_count_color = kTextColorMatchCount,
      match_count_bounds = SetBounds 0 0 0 0,
      focus_forwarder_bounds = SetBounds 0 0 0 0,
      find_previous_enabled = False,
      find_previous_bounds = SetBounds 0 0 0 0,
      find_next_enabled = False,
      find_next_bounds = SetBounds 0 0 0 0,
      close_bounds = SetBounds 0 0 0 0,
      bounds = SetBounds 0 0 0 0,
      animation_offset = 0,
      toolbar_blend = True,
      match_count = - 1,
      active_match_ordinal = - 1,
      effects = []\<rparr>"

subsection \<open>Result state\<close>

definition ResetMatchCountBackground :: "FindInPageView \<Rightarrow> FindInPageView" where
  "ResetMatchCountBackground s =
     s\<lparr>match_count_background := Some kBackgroundColorMatch,
       match_count_color := kTextColorMatchCount\<rparr>"

definition ResetMatchCount :: "FindInPageView \<Rightarrow> FindInPageView" where
  "ResetMatchCount s = ResetMatchCountBackground (s\<lparr>match_count_text := []\<rparr>)"

definition UpdateMatchCount :: "FindInPageView \<Rightarrow> int \<Rightarrow> bool \<Rightarrow> FindInPageView" where
  "UpdateMatchCount s number_of_matches final_update =
     (if number_of_matches < 0 then s
      else if 0 < match_count s \<and> number_of_matches = 1 \<and> \<not> final_update then s
      else
        let s1 = (if number_of_matches = 0 then s\<lparr>active_match_ordinal := 0\<rparr> else s);
            s2 = s1\<lparr>match_count := number_of_matches\<rparr>
        in if find_text s2 = [] \<or> 0 < number_of_matches
           then ResetMatchCountBackground s2
           else s2\<lparr>match_count_background := Some kBackgroundColorNoMatch,
                   match_count_color := kTextColorNoMatch,
                   effects := effects s2 @ [MessageBeep]\<rparr>)"

definition UpdateActiveMatchOrdinal :: "FindInPageView \<Rightarrow> int \<Rightarrow> FindInPageView" where
  "UpdateActiveMatchOrdinal s ordinal =
     (if 0 \<le> ordinal then s\<lparr>active_match_ordinal := ordinal\<rparr> else s)"

text \<open>
  An update is accepted when \<^verbatim>\<open>UpdateMatchCount\<close> passes both of its early returns.
\<close>

definition accepted :: "FindInPageView \<Rightarrow> int \<Rightarrow> bool \<Rightarrow> bool" where
  "accepted s number_of_matches final_update =
     (\<not> number_of_matches < 0 \<and>
      \<not> (0 < match_count s \<and> number_of_matches = 1 \<and> \<not> final_update))"

subsection \<open>Helpers that are not in the file\<close>

text \<open>
  \<^verbatim>\<open>gfx::Size::Enlarge\<close> adds to both dimensions. The division of two C++ \<^verbatim>\<open>int\<close>s
  truncates towards zero, where \<open>div\<close> rounds down.
\<close>

definition Enlarge :: "Size \<Rightarrow> int \<Rightarrow> int \<Rightarrow> Size" where
  "Enlarge sz w h = sz\<lparr>size_width := size_width sz + w, size_height := size_height sz + h\<rparr>"

definition c_div :: "int \<Rightarrow> int \<Rightarrow> int" where
  "c_div a b = sgn a * sgn b * (\<bar>a\<bar> div \<bar>b\<bar>)"

text \<open>
  Modelled from the spec: \<^verbatim>\<open>IntToWString\<close> (base/string\_util.h) is not in the file;
  the spec's example renders the counters 2 and 3 as "2" and "3", so it is the decimal
  numeral, with a minus sign for a negative number.
\<close>

fun digits :: "nat \<Rightarrow> string" where
  "digits n = (if n < 10 then [''0123456789'' ! n] else digits (n div 10) @ [''0123456789'' ! (n mod 10)])"

declare digits.simps [simp del]

definition IntToWString :: "int \<Rightarrow> string" where
  "IntToWString i = (if i < 0 then CHR ''-'' # digits (nat (- i)) else digits (nat i))"

subsection \<open>Layout\<close>

definition GetPreferredSize :: "Toolkit \<Rightarrow> Size" where
  "GetPreferredSize tk =
     (let prefsize = find_text_pref tk;
          prefsize = prefsize\<lparr>size_height := dlg_background_middle_height tk\<rparr>;
          prefsize = Enlarge prefsize
                       (kMarginLeftOfCloseButton + kMarginRightOfCloseButton +
                          kMarginLeftOfFindTextField) 0;
          prefsize = Enlarge prefsize (size_width (find_previous_pref tk)) 0;
          prefsize = Enlarge prefsize (size_width (find_next_pref tk)) 0;
          prefsize = Enlarge prefsize (size_width (close_pref tk)) 0
      in prefsize)"

text \<open>
  \<^verbatim>\<open>FindInPageView::Layout\<close>. The panel's width is that of \<open>GetPreferredSize\<close>, its height
  is \<^verbatim>\<open>height()\<close>. The x coordinates of the next and previous buttons subtract the
  width the button has when \<open>Layout\<close> is entered (\<^verbatim>\<open>find_next_button_->width()\<close>), not
  the preferred width just read into \<^verbatim>\<open>sz\<close>.
\<close>

definition Layout :: "Toolkit \<Rightarrow> FindInPageView \<Rightarrow> FindInPageView" where
  "Layout tk s =
     (let panel_size = GetPreferredSize tk;
          height = rect_height (bounds s);
          sz = close_pref tk;
          s1 = s\<lparr>close_bounds :=
                  SetBounds (size_width panel_size - size_width sz - kMarginRightOfCloseButton)
                    (c_div (height - size_height sz) 2)
                    (size_width sz)
                    (size_height sz)\<rparr>;
          sz = find_next_pref tk;
          s2 = s1\<lparr>find_next_bounds :=
                  SetBounds (rect_x (close_bounds s1) - rect_width (find_next_bounds s1) -
                               kMarginLeftOfCloseButton)
                    (c_div (height - size_height sz) 2)
                    (size_width sz)
                    (size_height sz)\<rparr>;
          sz = find_previous_pref tk;
          s3 = s2\<lparr>find_previous_bounds :=
                  SetBounds (rect_x (find_next_bounds s2) - rect_width (find_previous_bounds s2))
                    (c_div (height - size_height sz) 2)
                    (size_width sz)
                    (size_height sz)\<rparr>;
          sz = match_count_text_pref tk (match_count_text s3);
          sz = Enlarge sz kMatchCountExtraWidth 0;
          sz = sz\<lparr>size_width := max kMatchCountMinWidth (size_width sz)\<rparr>;
          s4 = s3\<lparr>match_count_bounds :=
                  SetBounds (rect_x (find_previous_bounds s3) - kWhiteSpaceAfterMatchCountLabel -
                               size_width sz)
                    (c_div (height - size_height sz) 2 + 1)
                    (size_width sz)
                    (size_height sz)\<rparr>;
          sz = find_text_pref tk;
          sz = sz\<lparr>size_width := rect_x (match_count_bounds s4) - kMarginLeftOfFindTextField\<rparr>;
          s5 = s4\<lparr>find_text_bounds :=
                  SetBounds (rect_x (match_count_bounds s4) - size_width sz)
                    (c_div (height - size_height sz) 2 + 1)
                    (size_width sz)
                    (size_height sz)\<rparr>;
          find_text_edge = rect_x (find_text_bounds s5) + rect_width (find_text_bounds s5)
      in s5\<lparr>focus_forwarder_bounds :=
              SetBounds find_text_edge
                (rect_y (find_previous_bounds s5))
                (rect_x (find_previous_bounds s5) - find_text_edge)
                (rect_height (find_previous_bounds s5))\<rparr>)"

subsection \<open>Result label and text changes\<close>

definition UpdateResultLabel :: "Toolkit \<Rightarrow> FindInPageView \<Rightarrow> FindInPageView" where
  "UpdateResultLabel tk s =
     (let search_string = find_text s;
          s1 = (if 0 < length search_string
                then s\<lparr>match_count_text :=
                         find_in_page_count tk (IntToWString (active_match_ordinal s))
                           (IntToWString (match_count s))\<rparr>
                else ResetMatchCount s);
          s2 = s1\<lparr>find_previous_enabled := 0 < match_count s1\<rparr>;
          s3 = s2\<lparr>find_next_enabled := 0 < match_count s2\<rparr>
      in Layout tk s3)"

definition ContentsChanged :: "Toolkit \<Rightarrow> FindInPageView \<Rightarrow> string \<Rightarrow> FindInPageView" where
  "ContentsChanged tk s new_contents =
     (if 0 < length new_contents
      then s\<lparr>effects := effects s @ [set_find_string new_contents, StartFinding True]\<rparr>
      else
        let s1 = UpdateMatchCount s 0 True;
            s2 = UpdateResultLabel tk s1
        in s2\<lparr>effects := effects s2 @ [StopFinding True, set_find_string []]\<rparr>)"

subsection \<open>Sequences of operations\<close>

text \<open>
  The operations that change the result state. A text change is the text field taking
  its new contents and then notifying the view through \<open>ContentsChanged\<close>.
\<close>

datatype operation =
    Op_UpdateMatchCount int bool
  | Op_UpdateActiveMatchOrdinal int
  | Op_UpdateResultLabel
  | Op_ContentsChanged string

fun step :: "Toolkit \<Rightarrow> FindInPageView \<Rightarrow> operation \<Rightarrow> FindInPageView" where
  "step tk s (Op_UpdateMatchCount number_of_matches final_update) =
     UpdateMatchCount s number_of_matches final_update"
| "step tk s (Op_UpdateActiveMatchOrdinal ordinal) = UpdateActiveMatchOrdinal s ordinal"
| "step tk s Op_UpdateResultLabel = UpdateResultLabel tk s"
| "step tk s (Op_ContentsChanged new_contents) =
     ContentsChanged tk (s\<lparr>find_text := new_contents\<rparr>) new_contents"

fun run :: "Toolkit \<Rightarrow> FindInPageView \<Rightarrow> operation list \<Rightarrow> FindInPageView" where
  "run tk s [] = s"
| "run tk s (x # xs) = run tk (step tk s x) xs"

subsection \<open>A concrete toolkit\<close>

text \<open>
  Modelled from the spec: the string resource \<^verbatim>\<open>IDS_FIND_IN_PAGE_COUNT\<close> is not in the
  file; the spec gives its English form, "ordinal of matchCount". The sizes are those of
  a text field of 300 by 20 pixels, square buttons of 20 pixels, a label font of 7 by 16
  pixels a character and a background bitmap 30 pixels high.
\<close>

definition example_toolkit :: Toolkit where
  "example_toolkit =
     \<lparr>find_text_pref = \<lparr>size_width = 300, size_height = 20\<rparr>,
      match_count_text_pref = (\<lambda>t. \<lparr>size_width = 7 * int (length t), size_height = 16\<rparr>),
      find_previous_pref = \<lparr>size_width = 20, size_height = 20\<rparr>,
      find_next_pref = \<lparr>size_width = 20, size_height = 20\<rparr>,
      close_pref = \<lparr>size_width = 20, size_height = 20\<rparr>,
      dlg_background_middle_height = 30,
      find_in_page_count = (\<lambda>a b. a @ '' of '' @ b)\<rparr>"

subsection \<open>Conditions on sequences of operations\<close>

text \<open>
  \<open>ordinal_guarded\<close>: no \<open>UpdateActiveMatchOrdinal\<close> with a positive ordinal is made in
  a state whose match count is 0. \<open>zero_count_zero_ordinal\<close> is the invariant
  "a match count of 0 has the ordinal 0".
\<close>

definition ordinal_allowed :: "FindInPageView \<Rightarrow> operation \<Rightarrow> bool" where
  "ordinal_allowed s x =
     (case x of
        Op_UpdateActiveMatchOrdinal ordinal \<Rightarrow> ordinal \<le> 0 \<or> match_count s \<noteq> 0
      | _ \<Rightarrow> True)"

fun ordinal_guarded :: "Toolkit \<Rightarrow> FindInPageView \<Rightarrow> operation list \<Rightarrow> bool" where
  "ordinal_guarded tk s [] = True"
| "ordinal_guarded tk s (x # xs) = (ordinal_allowed s x \<and> ordinal_guarded tk (step tk s x) xs)"

definition zero_count_zero_ordinal :: "FindInPageView \<Rightarrow> bool" where
  "zero_count_zero_ordinal s = (match_count s = 0 \<longrightarrow> active_match_ordinal s = 0)"

text \<open>
  \<open>buttons_follow_count\<close>: each of the two buttons is enabled if and only if the match
  count is positive. \<open>label_current b xs\<close>: after the operations \<open>xs\<close> no
  \<open>UpdateMatchCount\<close> call is waiting for the label to be refreshed by
  \<open>UpdateResultLabel\<close> or by a change of the text to the empty string (\<open>b\<close> says so for
  the state before \<open>xs\<close>).
\<close>

definition buttons_follow_count :: "FindInPageView \<Rightarrow> bool" where
  "buttons_follow_count s =
     (find_previous_enabled s = (0 < match_count s) \<and>
      find_next_enabled s = (0 < match_count s))"

fun label_current :: "bool \<Rightarrow> operation list \<Rightarrow> bool" where
  "label_current b [] = b"
| "label_current b (Op_UpdateMatchCount number_of_matches final_update # xs) =
     label_current False xs"
| "label_current b (Op_UpdateActiveMatchOrdinal ordinal # xs) = label_current b xs"
| "label_current b (Op_UpdateResultLabel # xs) = label_current True xs"
| "label_current b (Op_ContentsChanged new_contents # xs) =
     label_current (if new_contents = [] then True else b) xs"

subsection \<open>Sequences without an accepted update\<close>

text \<open>
  \<open>not_an_update s x\<close>: in the state \<open>s\<close> the operation \<open>x\<close> is not an accepted
  update. It is an \<open>UpdateMatchCount\<close> that takes one of the two early returns, an
  \<open>UpdateActiveMatchOrdinal\<close> with a negative ordinal, an \<open>UpdateResultLabel\<close>, or a
  change of the text to a non-empty string; a change to the empty string runs
  \<open>UpdateMatchCount 0 True\<close>, which is accepted. \<open>counters_unset\<close> is the state of the
  counters and of the two buttons that the constructor leaves.
\<close>

definition not_an_update :: "FindInPageView \<Rightarrow> operation \<Rightarrow> bool" where
  "not_an_update s x =
     (case x of
        Op_UpdateMatchCount number_of_matches final_update \<Rightarrow>
          \<not> accepted s number_of_matches final_update
      | Op_UpdateActiveMatchOrdinal ordinal \<Rightarrow> ordinal < 0
      | Op_UpdateResultLabel \<Rightarrow> True
      | Op_ContentsChanged new_contents \<Rightarrow> new_contents \<noteq> [])"

fun no_update_accepted :: "Toolkit \<Rightarrow> FindInPageView \<Rightarrow> operation list \<Rightarrow> bool" where
  "no_update_accepted tk s [] = True"
| "no_update_accepted tk s (x # xs) =
     (not_an_update s x \<and> no_update_accepted tk (step tk s x) xs)"

definition counters_unset :: "FindInPageView \<Rightarrow> bool" where
  "counters_unset s =
     (match_count s = - 1 \<and> active_match_ordinal s = - 1 \<and>
      find_previous_enabled s = False \<and> find_next_enabled s = False)"

subsection \<open>Geometry of the laid-out children\<close>

text \<open>
  Child bounds are in the panel's coordinates, so the panel is the rectangle from (0, 0)
  to its width and height. \<open>children_in_order\<close>: text input, label, previous, next and
  close button follow each other from left to right without overlap.
\<close>

definition right_edge :: "Rect \<Rightarrow> int" where
  "right_edge r = rect_x r + rect_width r"

definition bottom_edge :: "Rect \<Rightarrow> int" where
  "bottom_edge r = rect_y r + rect_height r"

definition inside :: "Rect \<Rightarrow> Rect \<Rightarrow> bool" where
  "inside r panel =
     (0 \<le> rect_x r \<and> 0 \<le> rect_width r \<and> right_edge r \<le> rect_width panel \<and>
      0 \<le> rect_y r \<and> 0 \<le> rect_height r \<and> bottom_edge r \<le> rect_height panel)"

definition children_in_order :: "FindInPageView \<Rightarrow> bool" where
  "children_in_order s =
     (0 \<le> rect_width (find_text_bounds s) \<and>
      right_edge (find_text_bounds s) \<le> rect_x (match_count_bounds s) \<and>
      0 \<le> rect_width (match_count_bounds s) \<and>
      right_edge (match_count_bounds s) \<le> rect_x (find_previous_bounds s) \<and>
      0 \<le> rect_width (find_previous_bounds s) \<and>
      right_edge (find_previous_bounds s) \<le> rect_x (find_next_bounds s) \<and>
      0 \<le> rect_width (find_next_bounds s) \<and>
      right_edge (find_next_bounds s) \<le> rect_x (close_bounds s) \<and>
      0 \<le> rect_width (close_bounds s))"

definition children_inside :: "FindInPageView \<Rightarrow> bool" where
  "children_inside s =
     (inside (find_text_bounds s) (bounds s) \<and>
      inside (match_count_bounds s) (bounds s) \<and>
      inside (find_previous_bounds s) (bounds s) \<and>
      inside (find_next_bounds s) (bounds s) \<and>
      inside (close_bounds s) (bounds s))"

text \<open>
  The width \<open>Layout\<close> gives the label, and the sum of the children's minimum widths and
  the fixed margins (the text input can shrink to 0).
\<close>

definition match_count_width :: "Toolkit \<Rightarrow> FindInPageView \<Rightarrow> int" where
  "match_count_width tk s =
     max kMatchCountMinWidth
       (size_width (match_count_text_pref tk (match_count_text s)) + kMatchCountExtraWidth)"

definition min_children_width :: "Toolkit \<Rightarrow> FindInPageView \<Rightarrow> int" where
  "min_children_width tk s =
     kMarginLeftOfFindTextField + 0 + match_count_width tk s +
     kWhiteSpaceAfterMatchCountLabel + size_width (find_previous_pref tk) +
     size_width (find_next_pref tk) + kMarginLeftOfCloseButton +
     size_width (close_pref tk) + kMarginRightOfCloseButton"

text \<open>
  What is stated of the result of \<open>Layout\<close>: order, containment in the panel, and the
  text input reaching from the left margin to the label.
\<close>

definition layout_as_claimed :: "Toolkit \<Rightarrow> FindInPageView \<Rightarrow> bool" where
  "layout_as_claimed tk s =
     (children_in_order (Layout tk s) \<and>
      children_inside (Layout tk s) \<and>
      rect_x (find_text_bounds (Layout tk s)) = kMarginLeftOfFindTextField \<and>
      right_edge (find_text_bounds (Layout tk s)) = rect_x (match_count_bounds (Layout tk s)))"

text \<open>
  \<open>buttons_laid_out\<close>: on entry the next and previous buttons have their preferred
  widths, as they do after any earlier \<open>Layout\<close>. \<open>button_sizes_fit\<close> and
  \<open>text_heights_fit\<close>: the preferred sizes are not negative and not higher than the
  panel; the label and the text input, which are placed one pixel lower, are less high
  than the panel.
\<close>

definition buttons_laid_out :: "Toolkit \<Rightarrow> FindInPageView \<Rightarrow> bool" where
  "buttons_laid_out tk s =
     (rect_width (find_next_bounds s) = size_width (find_next_pref tk) \<and>
      rect_width (find_previous_bounds s) = size_width (find_previous_pref tk))"

definition button_sizes_fit :: "Toolkit \<Rightarrow> FindInPageView \<Rightarrow> bool" where
  "button_sizes_fit tk s =
     (0 \<le> size_width (close_pref tk) \<and>
      0 \<le> size_height (close_pref tk) \<and>
      size_height (close_pref tk) \<le> rect_height (bounds s) \<and>
      0 \<le> size_width (find_next_pref tk) \<and>
      0 \<le> size_height (find_next_pref tk) \<and>
      size_height (find_next_pref tk) \<le> rect_height (bounds s) \<and>
      0 \<le> size_width (find_previous_pref tk) \<and>
      0 \<le> size_height (find_previous_pref tk) \<and>
      size_height (find_previous_pref tk) \<le> rect_height (bounds s))"

definition text_heights_fit :: "Toolkit \<Rightarrow> FindInPageView \<Rightarrow> bool" where
  "text_heights_fit tk s =
     (0 \<le> size_height (match_count_text_pref tk (match_count_text s)) \<and>
      size_height (match_count_text_pref tk (match_count_text s)) < rect_height (bounds s) \<and>
      0 \<le> size_height (find_text_pref tk) \<and>
      size_height (find_text_pref tk) < rect_height (bounds s))"

section \<open>Properties\<close>

subsection \<open>Layout moves widgets only\<close>

lemma Layout_result_state [simp]:
  "match_count (Layout tk s) = match_count s"
  "active_match_ordinal (Layout tk s) = active_match_ordinal s"
  "effects (Layout tk s) = effects s"
  "find_text (Layout tk s) = find_text s"
  "match_count_text (Layout tk s) = match_count_text s"
  "match_count_background (Layout tk s) = match_count_background s"
  "match_count_color (Layout tk s) = match_count_color s"
  "find_previous_enabled (Layout tk s) = find_previous_enabled s"
  "find_next_enabled (Layout tk s) = find_next_enabled s"
  "bounds (Layout tk s) = bounds s"
  by (simp_all add: Layout_def Let_def)

subsection \<open>Match count updates\<close>

text \<open>
  C1. In every state whose match count is positive, \<open>UpdateMatchCount 1 False\<close> changes
  nothing, so the match count stays what it was (the provisional 1 is suppressed), and
  \<open>UpdateMatchCount 1 True\<close> stores 1 as the match count.
\<close>

theorem UpdateMatchCount_provisional_one:
  "0 < match_count s \<Longrightarrow>
     UpdateMatchCount s 1 False = s \<and>
     match_count (UpdateMatchCount s 1 False) = match_count s \<and>
     match_count (UpdateMatchCount s 1 True) = 1"
  by (simp add: UpdateMatchCount_def ResetMatchCountBackground_def)

theorem UpdateMatchCount_provisional_one_witness:
  "0 < match_count (FindInPageView_ctor\<lparr>match_count := 5\<rparr>) \<and>
   match_count (UpdateMatchCount (FindInPageView_ctor\<lparr>match_count := 5\<rparr>) 1 False) = 5 \<and>
   match_count (UpdateMatchCount (FindInPageView_ctor\<lparr>match_count := 5\<rparr>) 1 True) = 1"
  using UpdateMatchCount_provisional_one [of "FindInPageView_ctor\<lparr>match_count := 5\<rparr>"]
  by simp

text \<open>
  C3. \<open>UpdateMatchCount\<close> with a negative count returns the state it was given, whatever
  the final flag: match count, active match ordinal, label text, label style, button
  enablement and every other field are unchanged. \<open>UpdateActiveMatchOrdinal\<close> with a
  negative ordinal returns the state it was given, and with an ordinal of 0 or more it
  stores the ordinal.
\<close>

theorem negative_updates_ignored:
  "(number_of_matches < 0 \<longrightarrow> UpdateMatchCount s number_of_matches final_update = s) \<and>
   (stale < 0 \<longrightarrow> UpdateActiveMatchOrdinal s stale = s) \<and>
   (0 \<le> ordinal \<longrightarrow> active_match_ordinal (UpdateActiveMatchOrdinal s ordinal) = ordinal)"
  by (simp add: UpdateMatchCount_def UpdateActiveMatchOrdinal_def)

theorem negative_updates_ignored_witness:
  "UpdateMatchCount (FindInPageView_ctor\<lparr>match_count := 5\<rparr>) (- 1) True =
     FindInPageView_ctor\<lparr>match_count := 5\<rparr> \<and>
   UpdateActiveMatchOrdinal (FindInPageView_ctor\<lparr>match_count := 5\<rparr>) (- 1) =
     FindInPageView_ctor\<lparr>match_count := 5\<rparr> \<and>
   active_match_ordinal (UpdateActiveMatchOrdinal (FindInPageView_ctor\<lparr>match_count := 5\<rparr>) 4) = 4"
  using negative_updates_ignored
    [of "- 1" "FindInPageView_ctor\<lparr>match_count := 5\<rparr>" True "- 1" 4]
  by simp

text \<open>
  C8. An accepted update stores its count. If the search text is empty or the stored
  count is positive the label gets the match style (white background, grey text) and
  nothing leaves the view; otherwise the label gets the no-match style (red background,
  black text) and exactly one \<open>MessageBeep\<close> is emitted.
\<close>

theorem accepted_update_style:
  assumes "accepted s n f"
  shows "match_count (UpdateMatchCount s n f) = n \<and>
    (find_text s = [] \<or> 0 < match_count (UpdateMatchCount s n f) \<longrightarrow>
       match_count_background (UpdateMatchCount s n f) = Some kBackgroundColorMatch \<and>
       match_count_color (UpdateMatchCount s n f) = kTextColorMatchCount \<and>
       effects (UpdateMatchCount s n f) = effects s) \<and>
    (\<not> (find_text s = [] \<or> 0 < match_count (UpdateMatchCount s n f)) \<longrightarrow>
       match_count_background (UpdateMatchCount s n f) = Some kBackgroundColorNoMatch \<and>
       match_count_color (UpdateMatchCount s n f) = kTextColorNoMatch \<and>
       effects (UpdateMatchCount s n f) = effects s @ [MessageBeep])"
  using assms
  by (auto simp add: accepted_def UpdateMatchCount_def ResetMatchCountBackground_def Let_def)

theorem accepted_update_style_witness:
  "accepted (FindInPageView_ctor\<lparr>find_text := ''abc''\<rparr>) 0 True \<and>
   match_count_background (UpdateMatchCount (FindInPageView_ctor\<lparr>find_text := ''abc''\<rparr>) 0 True)
     = Some (SkColorSetRGB 255 102 102) \<and>
   match_count_color (UpdateMatchCount (FindInPageView_ctor\<lparr>find_text := ''abc''\<rparr>) 0 True)
     = SkColorSetRGB 0 0 0 \<and>
   effects (UpdateMatchCount (FindInPageView_ctor\<lparr>find_text := ''abc''\<rparr>) 0 True) = [MessageBeep] \<and>
   accepted (FindInPageView_ctor\<lparr>find_text := ''abc''\<rparr>) 3 False \<and>
   match_count_background (UpdateMatchCount (FindInPageView_ctor\<lparr>find_text := ''abc''\<rparr>) 3 False)
     = Some (SkColorSetRGB 255 255 255) \<and>
   match_count_color (UpdateMatchCount (FindInPageView_ctor\<lparr>find_text := ''abc''\<rparr>) 3 False)
     = SkColorSetRGB 178 178 178 \<and>
   effects (UpdateMatchCount (FindInPageView_ctor\<lparr>find_text := ''abc''\<rparr>) 3 False) = []"
proof -
  let ?s = "FindInPageView_ctor\<lparr>find_text := ''abc''\<rparr>"
  have a0: "accepted ?s 0 True" and a3: "accepted ?s 3 False"
    by (simp_all add: accepted_def FindInPageView_ctor_def)
  have e: "effects ?s = []" "find_text ?s = ''abc''"
    by (simp_all add: FindInPageView_ctor_def)
  show ?thesis
    using a0 a3 e accepted_update_style [OF a0] accepted_update_style [OF a3]
    by (simp add: colour_constants)
qed

subsection \<open>The result label\<close>

text \<open>
  C5, as stated, fails: with an empty search text and a positive match count, which a
  late count update produces, \<open>UpdateResultLabel\<close> enables both buttons.
\<close>

theorem UpdateResultLabel_empty_text_counterexample:
  "find_text (UpdateMatchCount FindInPageView_ctor 5 True) = [] \<and>
   find_previous_enabled
     (UpdateResultLabel example_toolkit (UpdateMatchCount FindInPageView_ctor 5 True)) \<and>
   find_next_enabled
     (UpdateResultLabel example_toolkit (UpdateMatchCount FindInPageView_ctor 5 True))"
  by (simp add: UpdateResultLabel_def ResetMatchCount_def ResetMatchCountBackground_def Let_def
      UpdateMatchCount_def FindInPageView_ctor_def)

text \<open>
  C5, amended. With an empty search text \<open>UpdateResultLabel\<close> empties the label and gives
  it the match style; with a non-empty search text it renders the localised string from
  the decimal ordinal and the decimal match count ("2 of 3" for ordinal 2 of 3 matches in
  English). In both cases each of the two buttons is enabled if and only if the match
  count is positive.
\<close>

theorem UpdateResultLabel_renders:
  "(find_text s = [] \<longrightarrow>
      match_count_text (UpdateResultLabel tk s) = [] \<and>
      match_count_background (UpdateResultLabel tk s) = Some kBackgroundColorMatch \<and>
      match_count_color (UpdateResultLabel tk s) = kTextColorMatchCount) \<and>
   (find_text s \<noteq> [] \<longrightarrow>
      match_count_text (UpdateResultLabel tk s) =
        find_in_page_count tk (IntToWString (active_match_ordinal s))
          (IntToWString (match_count s))) \<and>
   find_previous_enabled (UpdateResultLabel tk s) = (0 < match_count s) \<and>
   find_next_enabled (UpdateResultLabel tk s) = (0 < match_count s)"
  by (simp add: UpdateResultLabel_def ResetMatchCount_def ResetMatchCountBackground_def Let_def)

theorem UpdateResultLabel_renders_witness:
  "match_count_text (UpdateResultLabel example_toolkit
      (FindInPageView_ctor\<lparr>find_text := ''abc'', match_count := 3, active_match_ordinal := 2\<rparr>))
     = ''2 of 3'' \<and>
   find_previous_enabled (UpdateResultLabel example_toolkit
      (FindInPageView_ctor\<lparr>find_text := ''abc'', match_count := 3, active_match_ordinal := 2\<rparr>)) \<and>
   find_next_enabled (UpdateResultLabel example_toolkit
      (FindInPageView_ctor\<lparr>find_text := ''abc'', match_count := 3, active_match_ordinal := 2\<rparr>)) \<and>
   match_count_text (UpdateResultLabel example_toolkit FindInPageView_ctor) = [] \<and>
   match_count_background (UpdateResultLabel example_toolkit FindInPageView_ctor)
     = Some (SkColorSetRGB 255 255 255) \<and>
   \<not> find_previous_enabled (UpdateResultLabel example_toolkit FindInPageView_ctor) \<and>
   \<not> find_next_enabled (UpdateResultLabel example_toolkit FindInPageView_ctor)"
  using UpdateResultLabel_renders [of
      "FindInPageView_ctor\<lparr>find_text := ''abc'', match_count := 3, active_match_ordinal := 2\<rparr>"
      example_toolkit]
    UpdateResultLabel_renders [of FindInPageView_ctor example_toolkit]
  by (simp add: FindInPageView_ctor_def example_toolkit_def IntToWString_def digits.simps
      colour_constants)

subsection \<open>Text changes\<close>

text \<open>
  C6. When the contents change to the empty string the handler's result is that of
  \<open>UpdateMatchCount 0 True\<close> followed by \<open>UpdateResultLabel\<close>, with two calls on the
  controller appended. It ends with match count 0
  and ordinal 0, a refreshed label (empty for an empty search text, the rendering of
  "0 of 0" otherwise) and both buttons disabled, and it appends to the calls that leave
  the view: the beep of the count update when the search text is not empty, then one
  \<open>StopFinding True\<close>, then \<open>set_find_string\<close> of the empty string; no \<open>StartFinding\<close>.
  When the contents change to a non-empty string the handler changes nothing but the
  calls: \<open>set_find_string\<close> of the new contents, then one \<open>StartFinding True\<close>.
\<close>

theorem ContentsChanged_calls:
  "ContentsChanged tk s [] =
     (UpdateResultLabel tk (UpdateMatchCount s 0 True))
       \<lparr>effects := effects s @ (if find_text s = [] then [] else [MessageBeep]) @
          [StopFinding True, set_find_string []]\<rparr> \<and>
   match_count (ContentsChanged tk s []) = 0 \<and>
   active_match_ordinal (ContentsChanged tk s []) = 0 \<and>
   match_count_text (ContentsChanged tk s []) =
     (if find_text s = [] then [] else find_in_page_count tk ''0'' ''0'') \<and>
   find_previous_enabled (ContentsChanged tk s []) = False \<and>
   find_next_enabled (ContentsChanged tk s []) = False \<and>
   effects (ContentsChanged tk s []) =
     effects s @ (if find_text s = [] then [] else [MessageBeep]) @
       [StopFinding True, set_find_string []] \<and>
   ContentsChanged tk s (c # cs) =
     s\<lparr>effects := effects s @ [set_find_string (c # cs), StartFinding True]\<rparr>"
  by (simp add: ContentsChanged_def UpdateResultLabel_def UpdateMatchCount_def
      ResetMatchCount_def ResetMatchCountBackground_def Let_def IntToWString_def digits.simps)

subsection \<open>Layout\<close>

text \<open>
  C9. After \<open>Layout\<close> the label's width is the larger of its preferred width plus
  \<open>kMatchCountExtraWidth\<close> and \<open>kMatchCountMinWidth\<close>, for every preferred width; so it
  is never below \<open>kMatchCountMinWidth\<close>.
\<close>

theorem Layout_match_count_width:
  "rect_width (match_count_bounds (Layout tk s)) =
     max (size_width (match_count_text_pref tk (match_count_text s)) + kMatchCountExtraWidth)
       kMatchCountMinWidth \<and>
   kMatchCountMinWidth \<le> rect_width (match_count_bounds (Layout tk s))"
  by (simp add: Layout_def Let_def SetBounds_def Enlarge_def max.commute)

subsection \<open>Placement of the children\<close>

lemma c_div_2: "0 \<le> a \<Longrightarrow> c_div a 2 = a div 2"
  by (cases "a = 0") (simp_all add: c_div_def)

lemma centred: "0 \<le> h \<Longrightarrow> h \<le> H \<Longrightarrow> 0 \<le> c_div (H - h) 2 \<and> c_div (H - h) 2 + h \<le> H"
  by (simp add: c_div_2) 

lemma centred_biased:
  "0 \<le> h \<Longrightarrow> h < H \<Longrightarrow> 0 \<le> c_div (H - h) 2 + 1 \<and> c_div (H - h) 2 + 1 + h \<le> H"
  by (simp add: c_div_2) 

lemma Layout_close_bounds:
  "close_bounds (Layout tk s) =
     SetBounds (size_width (GetPreferredSize tk) - size_width (close_pref tk) - kMarginRightOfCloseButton)
       (c_div (rect_height (bounds s) - size_height (close_pref tk)) 2)
       (size_width (close_pref tk)) (size_height (close_pref tk))"
  by (simp add: Layout_def Let_def)

lemma Layout_find_next_bounds:
  "find_next_bounds (Layout tk s) =
     SetBounds (rect_x (close_bounds (Layout tk s)) - rect_width (find_next_bounds s) -
                  kMarginLeftOfCloseButton)
       (c_div (rect_height (bounds s) - size_height (find_next_pref tk)) 2)
       (size_width (find_next_pref tk)) (size_height (find_next_pref tk))"
  by (simp add: Layout_def Let_def)

lemma Layout_find_previous_bounds:
  "find_previous_bounds (Layout tk s) =
     SetBounds (rect_x (find_next_bounds (Layout tk s)) - rect_width (find_previous_bounds s))
       (c_div (rect_height (bounds s) - size_height (find_previous_pref tk)) 2)
       (size_width (find_previous_pref tk)) (size_height (find_previous_pref tk))"
  by (simp add: Layout_def Let_def)

lemma Layout_match_count_bounds:
  "match_count_bounds (Layout tk s) =
     SetBounds (rect_x (find_previous_bounds (Layout tk s)) - kWhiteSpaceAfterMatchCountLabel -
                  match_count_width tk s)
       (c_div (rect_height (bounds s) -
          size_height (match_count_text_pref tk (match_count_text s))) 2 + 1)
       (match_count_width tk s)
       (size_height (match_count_text_pref tk (match_count_text s)))"
  by (simp add: Layout_def Let_def Enlarge_def match_count_width_def)

lemma Layout_find_text_bounds:
  "find_text_bounds (Layout tk s) =
     SetBounds kMarginLeftOfFindTextField
       (c_div (rect_height (bounds s) - size_height (find_text_pref tk)) 2 + 1)
       (rect_x (match_count_bounds (Layout tk s)) - kMarginLeftOfFindTextField)
       (size_height (find_text_pref tk))"
  by (simp add: Layout_def Let_def)


lemma Layout_buttons_laid_out: "buttons_laid_out tk (Layout tk s)"
  by (simp add: buttons_laid_out_def Layout_find_next_bounds Layout_find_previous_bounds
      SetBounds_def)

lemma Layout_horizontal:
  assumes "buttons_laid_out tk s"
  shows "rect_x (find_text_bounds (Layout tk s)) = kMarginLeftOfFindTextField"
    and "right_edge (find_text_bounds (Layout tk s)) = rect_x (match_count_bounds (Layout tk s))"
    and "right_edge (match_count_bounds (Layout tk s)) + kWhiteSpaceAfterMatchCountLabel =
           rect_x (find_previous_bounds (Layout tk s))"
    and "right_edge (find_previous_bounds (Layout tk s)) = rect_x (find_next_bounds (Layout tk s))"
    and "right_edge (find_next_bounds (Layout tk s)) + kMarginLeftOfCloseButton =
           rect_x (close_bounds (Layout tk s))"
    and "right_edge (close_bounds (Layout tk s)) + kMarginRightOfCloseButton =
           size_width (GetPreferredSize tk)"
    and "rect_width (find_text_bounds (Layout tk s)) =
           size_width (GetPreferredSize tk) - min_children_width tk s"
  using assms
  by (simp_all add: buttons_laid_out_def right_edge_def min_children_width_def
      Layout_find_text_bounds Layout_match_count_bounds Layout_find_previous_bounds
      Layout_find_next_bounds Layout_close_bounds SetBounds_def)

lemma Layout_widths:
  "rect_width (match_count_bounds (Layout tk s)) = match_count_width tk s"
  "rect_width (find_previous_bounds (Layout tk s)) = size_width (find_previous_pref tk)"
  "rect_width (find_next_bounds (Layout tk s)) = size_width (find_next_pref tk)"
  "rect_width (close_bounds (Layout tk s)) = size_width (close_pref tk)"
  by (simp_all add: Layout_match_count_bounds Layout_find_previous_bounds
      Layout_find_next_bounds Layout_close_bounds SetBounds_def)

lemma match_count_width_min: "kMatchCountMinWidth \<le> match_count_width tk s"
  by (simp add: match_count_width_def)

lemma Layout_vertical_buttons:
  assumes "button_sizes_fit tk s"
  shows "0 \<le> rect_y (close_bounds (Layout tk s)) \<and>
         0 \<le> rect_height (close_bounds (Layout tk s)) \<and>
         bottom_edge (close_bounds (Layout tk s)) \<le> rect_height (bounds s)"
    and "0 \<le> rect_y (find_next_bounds (Layout tk s)) \<and>
         0 \<le> rect_height (find_next_bounds (Layout tk s)) \<and>
         bottom_edge (find_next_bounds (Layout tk s)) \<le> rect_height (bounds s)"
    and "0 \<le> rect_y (find_previous_bounds (Layout tk s)) \<and>
         0 \<le> rect_height (find_previous_bounds (Layout tk s)) \<and>
         bottom_edge (find_previous_bounds (Layout tk s)) \<le> rect_height (bounds s)"
  using assms
  by (simp_all add: button_sizes_fit_def bottom_edge_def Layout_find_previous_bounds
      Layout_find_next_bounds Layout_close_bounds SetBounds_def centred)

lemma Layout_vertical_texts:
  assumes "text_heights_fit tk s"
  shows "0 \<le> rect_y (match_count_bounds (Layout tk s)) \<and>
         0 \<le> rect_height (match_count_bounds (Layout tk s)) \<and>
         bottom_edge (match_count_bounds (Layout tk s)) \<le> rect_height (bounds s)"
    and "0 \<le> rect_y (find_text_bounds (Layout tk s)) \<and>
         0 \<le> rect_height (find_text_bounds (Layout tk s)) \<and>
         bottom_edge (find_text_bounds (Layout tk s)) \<le> rect_height (bounds s)"
  using assms
  by (simp_all add: text_heights_fit_def bottom_edge_def Layout_find_text_bounds
      Layout_match_count_bounds SetBounds_def centred_biased)

lemma example_toolkit_sizes:
  "size_width (GetPreferredSize example_toolkit) = 382"
  "close_pref example_toolkit = \<lparr>size_width = 20, size_height = 20\<rparr>"
  "find_next_pref example_toolkit = \<lparr>size_width = 20, size_height = 20\<rparr>"
  "find_previous_pref example_toolkit = \<lparr>size_width = 20, size_height = 20\<rparr>"
  "find_text_pref example_toolkit = \<lparr>size_width = 300, size_height = 20\<rparr>"
  "match_count_text_pref example_toolkit [] = \<lparr>size_width = 0, size_height = 16\<rparr>"
  by (simp_all add: GetPreferredSize_def Enlarge_def Let_def example_toolkit_def layout_constants)

lemma ctor_resized:
  "bounds (FindInPageView_ctor\<lparr>bounds := r\<rparr>) = r"
  "match_count_text (FindInPageView_ctor\<lparr>bounds := r\<rparr>) = []"
  "find_next_bounds (FindInPageView_ctor\<lparr>bounds := r\<rparr>) = SetBounds 0 0 0 0"
  "find_previous_bounds (FindInPageView_ctor\<lparr>bounds := r\<rparr>) = SetBounds 0 0 0 0"
  by (simp_all add: FindInPageView_ctor_def)

text \<open>
  On the first \<open>Layout\<close> of a new panel the next and previous buttons still have the
  width 0, and both are placed at the same x, five pixels left of the close button and
  20 pixels wide.
\<close>

lemma Layout_first_pass_overlap:
  "rect_x (find_previous_bounds
     (Layout example_toolkit (FindInPageView_ctor\<lparr>bounds := SetBounds 0 0 382 30\<rparr>))) = 352 \<and>
   rect_x (find_next_bounds
     (Layout example_toolkit (FindInPageView_ctor\<lparr>bounds := SetBounds 0 0 382 30\<rparr>))) = 352 \<and>
   right_edge (find_next_bounds
     (Layout example_toolkit (FindInPageView_ctor\<lparr>bounds := SetBounds 0 0 382 30\<rparr>))) = 372 \<and>
   rect_x (close_bounds
     (Layout example_toolkit (FindInPageView_ctor\<lparr>bounds := SetBounds 0 0 382 30\<rparr>))) = 357"
  by (simp add: right_edge_def Layout_find_previous_bounds Layout_find_next_bounds
      Layout_close_bounds example_toolkit_sizes ctor_resized SetBounds_def layout_constants)

text \<open>
  C7, as stated, fails: \<open>Layout\<close> never reads the panel's width. A panel 200 pixels
  wide, more than the 115 pixels its children need, has its close button end at 377, the
  preferred width of 382 less the right margin.
\<close>

theorem Layout_narrow_panel_counterexample:
  "min_children_width example_toolkit
     (Layout example_toolkit (FindInPageView_ctor\<lparr>bounds := SetBounds 0 0 200 30\<rparr>)) = 115 \<and>
   rect_width (bounds
     (Layout example_toolkit (FindInPageView_ctor\<lparr>bounds := SetBounds 0 0 200 30\<rparr>))) = 200 \<and>
   right_edge (close_bounds (Layout example_toolkit
     (Layout example_toolkit (FindInPageView_ctor\<lparr>bounds := SetBounds 0 0 200 30\<rparr>)))) = 377 \<and>
   \<not> layout_as_claimed example_toolkit
     (Layout example_toolkit (FindInPageView_ctor\<lparr>bounds := SetBounds 0 0 200 30\<rparr>))"
proof -
  let ?s = "Layout example_toolkit (FindInPageView_ctor\<lparr>bounds := SetBounds 0 0 200 30\<rparr>)"
  have m: "min_children_width example_toolkit ?s = 115"
    by (simp add: min_children_width_def match_count_width_def example_toolkit_sizes
        ctor_resized layout_constants)
  have r: "rect_width (bounds ?s) = 200"
    by (simp add: ctor_resized SetBounds_def)
  have c: "right_edge (close_bounds (Layout example_toolkit ?s)) = 377"
    by (simp add: right_edge_def Layout_close_bounds example_toolkit_sizes SetBounds_def
        layout_constants)
  have "\<not> inside (close_bounds (Layout example_toolkit ?s)) (bounds (Layout example_toolkit ?s))"
    using c r by (simp add: inside_def)
  then have "\<not> layout_as_claimed example_toolkit ?s"
    by (simp add: layout_as_claimed_def children_inside_def)
  with m r c show ?thesis by simp
qed

text \<open>
  C7, amended. \<open>Layout\<close> takes the panel's preferred width for the panel width. If the
  next and previous buttons have their preferred widths on entry, no preferred size is
  negative, the preferred width is at least the sum of the children's minimum widths
  and margins and at most the panel's width, the buttons are not higher than the panel
  and the label and the text input are less high than the panel, then after \<open>Layout\<close>
  the five children are in order from left to right without overlap and inside the
  panel, the text input begins at the left margin and ends where the label begins; the
  other gaps are the fixed margins, so that the text input has all the width the
  others leave.
\<close>

theorem Layout_children_placed:
  assumes laid_out: "buttons_laid_out tk s"
    and buttons: "button_sizes_fit tk s"
    and texts: "text_heights_fit tk s"
    and fits: "min_children_width tk s \<le> size_width (GetPreferredSize tk)"
    and panel: "size_width (GetPreferredSize tk) \<le> rect_width (bounds s)"
  shows "layout_as_claimed tk s \<and>
    right_edge (match_count_bounds (Layout tk s)) + kWhiteSpaceAfterMatchCountLabel =
      rect_x (find_previous_bounds (Layout tk s)) \<and>
    right_edge (find_previous_bounds (Layout tk s)) = rect_x (find_next_bounds (Layout tk s)) \<and>
    right_edge (find_next_bounds (Layout tk s)) + kMarginLeftOfCloseButton =
      rect_x (close_bounds (Layout tk s)) \<and>
    right_edge (close_bounds (Layout tk s)) + kMarginRightOfCloseButton =
      size_width (GetPreferredSize tk) \<and>
    rect_width (find_text_bounds (Layout tk s)) =
      size_width (GetPreferredSize tk) - min_children_width tk s"
proof -
  let ?s = "Layout tk s"
  note h = Layout_horizontal [OF laid_out]
  note w = Layout_widths [of tk s]
  note vb = Layout_vertical_buttons [OF buttons]
  note vt = Layout_vertical_texts [OF texts]
  have wt: "0 \<le> rect_width (find_text_bounds ?s)"
    using h(7) fits by simp
  have wl: "0 \<le> rect_width (match_count_bounds ?s)"
    using w(1) match_count_width_min [of tk s] by (simp add: kMatchCountMinWidth_def)
  have wb: "0 \<le> rect_width (find_previous_bounds ?s)" "0 \<le> rect_width (find_next_bounds ?s)"
    "0 \<le> rect_width (close_bounds ?s)"
    using w buttons by (simp_all add: button_sizes_fit_def)
  have order: "children_in_order ?s"
    using h wt wl wb by (simp add: children_in_order_def layout_constants)
  have x: "rect_x (find_text_bounds ?s) \<le> right_edge (find_text_bounds ?s)"
    "rect_x (match_count_bounds ?s) \<le> right_edge (match_count_bounds ?s)"
    "rect_x (find_previous_bounds ?s) \<le> right_edge (find_previous_bounds ?s)"
    "rect_x (find_next_bounds ?s) \<le> right_edge (find_next_bounds ?s)"
    "rect_x (close_bounds ?s) \<le> right_edge (close_bounds ?s)"
    using wt wl wb by (simp_all add: right_edge_def)
  have chain: "0 \<le> rect_x (find_text_bounds ?s)"
    "0 \<le> rect_x (match_count_bounds ?s)"
    "0 \<le> rect_x (find_previous_bounds ?s)"
    "0 \<le> rect_x (find_next_bounds ?s)"
    "0 \<le> rect_x (close_bounds ?s)"
    "right_edge (find_text_bounds ?s) \<le> rect_width (bounds s)"
    "right_edge (match_count_bounds ?s) \<le> rect_width (bounds s)"
    "right_edge (find_previous_bounds ?s) \<le> rect_width (bounds s)"
    "right_edge (find_next_bounds ?s) \<le> rect_width (bounds s)"
    "right_edge (close_bounds ?s) \<le> rect_width (bounds s)"
    using h(1-6) x panel by (simp_all add: layout_constants)
  have inside: "children_inside ?s"
    using chain wt wl wb vb vt by (simp add: children_inside_def inside_def)
  show ?thesis
    using order inside h by (simp add: layout_as_claimed_def)
qed

theorem Layout_children_placed_witness:
  "buttons_laid_out example_toolkit
     (Layout example_toolkit (FindInPageView_ctor\<lparr>bounds := SetBounds 0 0 382 30\<rparr>)) \<and>
   button_sizes_fit example_toolkit
     (Layout example_toolkit (FindInPageView_ctor\<lparr>bounds := SetBounds 0 0 382 30\<rparr>)) \<and>
   text_heights_fit example_toolkit
     (Layout example_toolkit (FindInPageView_ctor\<lparr>bounds := SetBounds 0 0 382 30\<rparr>)) \<and>
   min_children_width example_toolkit
     (Layout example_toolkit (FindInPageView_ctor\<lparr>bounds := SetBounds 0 0 382 30\<rparr>)) = 115 \<and>
   size_width (GetPreferredSize example_toolkit) = 382 \<and>
   rect_width (bounds
     (Layout example_toolkit (FindInPageView_ctor\<lparr>bounds := SetBounds 0 0 382 30\<rparr>))) = 382 \<and>
   layout_as_claimed example_toolkit
     (Layout example_toolkit (FindInPageView_ctor\<lparr>bounds := SetBounds 0 0 382 30\<rparr>)) \<and>
   rect_width (find_text_bounds (Layout example_toolkit
     (Layout example_toolkit (FindInPageView_ctor\<lparr>bounds := SetBounds 0 0 382 30\<rparr>)))) = 267"
proof -
  let ?s = "Layout example_toolkit (FindInPageView_ctor\<lparr>bounds := SetBounds 0 0 382 30\<rparr>)"
  have a: "buttons_laid_out example_toolkit ?s"
    by (rule Layout_buttons_laid_out)
  have b: "button_sizes_fit example_toolkit ?s"
    by (simp add: button_sizes_fit_def example_toolkit_sizes ctor_resized SetBounds_def)
  have c: "text_heights_fit example_toolkit ?s"
    by (simp add: text_heights_fit_def example_toolkit_sizes ctor_resized SetBounds_def)
  have m: "min_children_width example_toolkit ?s = 115"
    by (simp add: min_children_width_def match_count_width_def example_toolkit_sizes
        ctor_resized layout_constants)
  have p: "size_width (GetPreferredSize example_toolkit) = 382"
    by (simp add: example_toolkit_sizes)
  have r: "rect_width (bounds ?s) = 382"
    by (simp add: ctor_resized SetBounds_def)
  have d: "min_children_width example_toolkit ?s \<le> size_width (GetPreferredSize example_toolkit)"
    using m p by simp
  have e: "size_width (GetPreferredSize example_toolkit) \<le> rect_width (bounds ?s)"
    using p r by simp
  from Layout_children_placed [OF a b c d e] a b c m p r show ?thesis by simp
qed

subsection \<open>Counters and buttons along sequences of operations\<close>

lemma UpdateResultLabel_counters [simp]:
  "match_count (UpdateResultLabel tk s) = match_count s"
  "active_match_ordinal (UpdateResultLabel tk s) = active_match_ordinal s"
  by (simp_all add: UpdateResultLabel_def ResetMatchCount_def ResetMatchCountBackground_def Let_def)

lemma UpdateResultLabel_buttons [simp]:
  "find_previous_enabled (UpdateResultLabel tk s) = (0 < match_count s)"
  "find_next_enabled (UpdateResultLabel tk s) = (0 < match_count s)"
  by (simp_all add: UpdateResultLabel_def ResetMatchCount_def ResetMatchCountBackground_def Let_def)

lemma UpdateMatchCount_zero_final [simp]:
  "match_count (UpdateMatchCount s 0 True) = 0"
  "active_match_ordinal (UpdateMatchCount s 0 True) = 0"
  by (simp_all add: UpdateMatchCount_def ResetMatchCountBackground_def Let_def)

lemma ContentsChanged_counters:
  "match_count (ContentsChanged tk s new_contents) =
     (if new_contents = [] then 0 else match_count s)"
  "active_match_ordinal (ContentsChanged tk s new_contents) =
     (if new_contents = [] then 0 else active_match_ordinal s)"
  by (simp_all add: ContentsChanged_def Let_def)

lemma ContentsChanged_buttons:
  "find_previous_enabled (ContentsChanged tk s new_contents) =
     (if new_contents = [] then False else find_previous_enabled s)"
  "find_next_enabled (ContentsChanged tk s new_contents) =
     (if new_contents = [] then False else find_next_enabled s)"
  by (simp_all add: ContentsChanged_def Let_def)

lemma UpdateMatchCount_ordinal_invariant:
  "zero_count_zero_ordinal s \<Longrightarrow> zero_count_zero_ordinal (UpdateMatchCount s n f)"
  by (auto simp add: zero_count_zero_ordinal_def UpdateMatchCount_def
      ResetMatchCountBackground_def Let_def)

lemma step_ordinal_invariant:
  assumes "zero_count_zero_ordinal s" and "ordinal_allowed s x"
  shows "zero_count_zero_ordinal (step tk s x)"
proof (cases x)
  case (Op_UpdateMatchCount n f)
  then show ?thesis using assms(1) by (simp add: UpdateMatchCount_ordinal_invariant)
next
  case (Op_UpdateActiveMatchOrdinal ordinal)
  then show ?thesis using assms
    by (auto simp add: zero_count_zero_ordinal_def ordinal_allowed_def UpdateActiveMatchOrdinal_def)
next
  case Op_UpdateResultLabel
  then show ?thesis using assms(1) by (simp add: zero_count_zero_ordinal_def)
next
  case (Op_ContentsChanged new_contents)
  then show ?thesis using assms(1)
    by (simp add: zero_count_zero_ordinal_def ContentsChanged_counters)
qed

lemma run_ordinal_invariant:
  "zero_count_zero_ordinal s \<Longrightarrow> ordinal_guarded tk s xs \<Longrightarrow>
     zero_count_zero_ordinal (run tk s xs)"
proof (induction xs arbitrary: s)
  case Nil
  then show ?case by simp
next
  case (Cons x xs)
  from Cons.prems have "zero_count_zero_ordinal (step tk s x)"
    by (simp add: step_ordinal_invariant)
  with Cons show ?case by simp
qed

text \<open>
  C2, as stated, fails: after \<open>UpdateMatchCount 0 True\<close> the call
  \<open>UpdateActiveMatchOrdinal 3\<close> stores 3 next to a match count of 0.
\<close>

theorem ordinal_after_zero_count_counterexample:
  "match_count (run example_toolkit FindInPageView_ctor
     [Op_UpdateMatchCount 0 True, Op_UpdateActiveMatchOrdinal 3]) = 0 \<and>
   active_match_ordinal (run example_toolkit FindInPageView_ctor
     [Op_UpdateMatchCount 0 True, Op_UpdateActiveMatchOrdinal 3]) = 3"
  by (simp add: UpdateActiveMatchOrdinal_def)

text \<open>
  C2, amended. In every state reached from the constructed panel by a sequence of
  operations in which no \<open>UpdateActiveMatchOrdinal\<close> call with a positive ordinal is
  made while the match count is 0, a match count of 0 has the active match ordinal 0.
\<close>

theorem guarded_run_zero_ordinal:
  "ordinal_guarded tk FindInPageView_ctor xs \<Longrightarrow>
     match_count (run tk FindInPageView_ctor xs) = 0 \<Longrightarrow>
     active_match_ordinal (run tk FindInPageView_ctor xs) = 0"
proof -
  assume g: "ordinal_guarded tk FindInPageView_ctor xs"
    and z: "match_count (run tk FindInPageView_ctor xs) = 0"
  have "zero_count_zero_ordinal FindInPageView_ctor"
    by (simp add: zero_count_zero_ordinal_def FindInPageView_ctor_def)
  from run_ordinal_invariant [OF this g] z
  show ?thesis by (simp add: zero_count_zero_ordinal_def)
qed


theorem guarded_run_zero_ordinal_witness:
  "ordinal_guarded example_toolkit FindInPageView_ctor
     [Op_UpdateMatchCount 3 False, Op_UpdateActiveMatchOrdinal 2, Op_UpdateMatchCount 0 True] \<and>
   match_count (run example_toolkit FindInPageView_ctor
     [Op_UpdateMatchCount 3 False, Op_UpdateActiveMatchOrdinal 2, Op_UpdateMatchCount 0 True]) = 0 \<and>
   active_match_ordinal (run example_toolkit FindInPageView_ctor
     [Op_UpdateMatchCount 3 False, Op_UpdateActiveMatchOrdinal 2, Op_UpdateMatchCount 0 True]) = 0"
proof -
  let ?xs = "[Op_UpdateMatchCount 3 False, Op_UpdateActiveMatchOrdinal 2, Op_UpdateMatchCount 0 True]"
  have g: "ordinal_guarded example_toolkit FindInPageView_ctor ?xs"
    by (simp add: ordinal_allowed_def UpdateMatchCount_def ResetMatchCountBackground_def
        UpdateActiveMatchOrdinal_def FindInPageView_ctor_def Let_def)
  have z: "match_count (run example_toolkit FindInPageView_ctor ?xs) = 0"
    by simp
  from g z guarded_run_zero_ordinal [OF g z] show ?thesis by simp
qed

lemma bfc_UpdateActiveMatchOrdinal:
  "buttons_follow_count s \<Longrightarrow> buttons_follow_count (UpdateActiveMatchOrdinal s ordinal)"
  by (simp add: buttons_follow_count_def UpdateActiveMatchOrdinal_def)

lemma bfc_UpdateResultLabel: "buttons_follow_count (UpdateResultLabel tk s)"
  by (simp add: buttons_follow_count_def)

lemma bfc_ContentsChanged_empty: "buttons_follow_count (ContentsChanged tk s [])"
  by (simp add: buttons_follow_count_def ContentsChanged_counters ContentsChanged_buttons)

lemma bfc_ContentsChanged_nonempty:
  "new_contents \<noteq> [] \<Longrightarrow> buttons_follow_count s \<Longrightarrow>
     buttons_follow_count (ContentsChanged tk (s\<lparr>find_text := new_contents\<rparr>) new_contents)"
  by (simp add: buttons_follow_count_def ContentsChanged_counters ContentsChanged_buttons)


lemma bfc_find_text [simp]:
  "buttons_follow_count (s\<lparr>find_text := new_contents\<rparr>) = buttons_follow_count s"
  by (simp add: buttons_follow_count_def)

lemma run_buttons:
  "(b \<longrightarrow> buttons_follow_count s) \<Longrightarrow> label_current b xs \<Longrightarrow>
     buttons_follow_count (run tk s xs)"
proof (induction xs arbitrary: s b)
  case Nil
  then show ?case by simp
next
  case (Cons x xs)
  show ?case
  proof (cases x)
    case (Op_UpdateMatchCount n f)
    have l: "label_current False xs"
      using Cons.prems(2) unfolding Op_UpdateMatchCount by simp
    have "False \<longrightarrow> buttons_follow_count (step tk s x)" by simp
    from Cons.IH [OF this l] show ?thesis by simp
  next
    case (Op_UpdateActiveMatchOrdinal ordinal)
    have l: "label_current b xs"
      using Cons.prems(2) unfolding Op_UpdateActiveMatchOrdinal by simp
    have "b \<longrightarrow> buttons_follow_count (step tk s x)"
      using Cons.prems(1) unfolding Op_UpdateActiveMatchOrdinal
      by (simp add: bfc_UpdateActiveMatchOrdinal)
    from Cons.IH [OF this l] show ?thesis by simp
  next
    case Op_UpdateResultLabel
    have l: "label_current True xs"
      using Cons.prems(2) unfolding Op_UpdateResultLabel by simp
    have "True \<longrightarrow> buttons_follow_count (step tk s x)"
      unfolding Op_UpdateResultLabel by (simp add: bfc_UpdateResultLabel)
    from Cons.IH [OF this l] show ?thesis by simp
  next
    case (Op_ContentsChanged new_contents)
    show ?thesis
    proof (cases "new_contents = []")
      case True
      have l: "label_current True xs"
        using Cons.prems(2) unfolding Op_ContentsChanged True by simp
      have "True \<longrightarrow> buttons_follow_count (step tk s x)"
        unfolding Op_ContentsChanged True by (simp add: bfc_ContentsChanged_empty)
      from Cons.IH [OF this l] show ?thesis by simp
    next
      case False
      have l: "label_current b xs"
        using Cons.prems(2) False unfolding Op_ContentsChanged by simp
      have "b \<longrightarrow> buttons_follow_count (step tk s x)"
        using Cons.prems(1) False unfolding Op_ContentsChanged
        by (simp add: bfc_ContentsChanged_nonempty)
      from Cons.IH [OF this l] show ?thesis by simp
    qed
  qed
qed

text \<open>
  C4, as stated, fails: \<open>UpdateMatchCount 5 True\<close> on the constructed panel stores the
  count 5 and leaves both buttons disabled.
\<close>

theorem buttons_after_count_update_counterexample:
  "match_count (run example_toolkit FindInPageView_ctor [Op_UpdateMatchCount 5 True]) = 5 \<and>
   \<not> find_previous_enabled (run example_toolkit FindInPageView_ctor [Op_UpdateMatchCount 5 True]) \<and>
   \<not> find_next_enabled (run example_toolkit FindInPageView_ctor [Op_UpdateMatchCount 5 True])"
  by (simp add: UpdateMatchCount_def ResetMatchCountBackground_def FindInPageView_ctor_def Let_def)

text \<open>
  C4, amended. In every state reached from the constructed panel by a sequence of
  operations with no \<open>UpdateMatchCount\<close> call after the last \<open>UpdateResultLabel\<close> or
  change of the text to the empty string, each of the previous and next buttons is
  enabled if and only if the match count is positive.
\<close>

theorem refreshed_run_buttons:
  "label_current True xs \<Longrightarrow>
     find_previous_enabled (run tk FindInPageView_ctor xs) =
       (0 < match_count (run tk FindInPageView_ctor xs)) \<and>
     find_next_enabled (run tk FindInPageView_ctor xs) =
       (0 < match_count (run tk FindInPageView_ctor xs))"
proof -
  assume l: "label_current True xs"
  have "True \<longrightarrow> buttons_follow_count FindInPageView_ctor"
    by (simp add: buttons_follow_count_def FindInPageView_ctor_def)
  from run_buttons [OF this l] show ?thesis
    by (simp add: buttons_follow_count_def)
qed



theorem refreshed_run_buttons_witness:
  "label_current True
     [Op_ContentsChanged ''ab'', Op_UpdateMatchCount 5 True, Op_UpdateActiveMatchOrdinal 1,
      Op_UpdateResultLabel] \<and>
   match_count (run example_toolkit FindInPageView_ctor
     [Op_ContentsChanged ''ab'', Op_UpdateMatchCount 5 True, Op_UpdateActiveMatchOrdinal 1,
      Op_UpdateResultLabel]) = 5 \<and>
   find_previous_enabled (run example_toolkit FindInPageView_ctor
     [Op_ContentsChanged ''ab'', Op_UpdateMatchCount 5 True, Op_UpdateActiveMatchOrdinal 1,
      Op_UpdateResultLabel]) \<and>
   find_next_enabled (run example_toolkit FindInPageView_ctor
     [Op_ContentsChanged ''ab'', Op_UpdateMatchCount 5 True, Op_UpdateActiveMatchOrdinal 1,
      Op_UpdateResultLabel])"
proof -
  let ?xs = "[Op_ContentsChanged ''ab'', Op_UpdateMatchCount 5 True,
      Op_UpdateActiveMatchOrdinal 1, Op_UpdateResultLabel]"
  have l: "label_current True ?xs" by simp
  have m: "match_count (run example_toolkit FindInPageView_ctor ?xs) = 5"
    by (simp add: UpdateActiveMatchOrdinal_def UpdateMatchCount_def
        ResetMatchCountBackground_def ContentsChanged_def FindInPageView_ctor_def Let_def)
  from l m refreshed_run_buttons [OF l, of example_toolkit] show ?thesis by simp
qed

subsection \<open>Construction\<close>

lemma UpdateMatchCount_not_accepted:
  "\<not> accepted s n f \<Longrightarrow> UpdateMatchCount s n f = s"
  by (auto simp add: accepted_def UpdateMatchCount_def)

lemma counters_unset_find_text:
  "counters_unset (s\<lparr>find_text := new_contents\<rparr>) = counters_unset s"
  by (simp add: counters_unset_def)

lemma counters_unset_UpdateResultLabel:
  "counters_unset s \<Longrightarrow> counters_unset (UpdateResultLabel tk s)"
  by (simp add: counters_unset_def)

lemma counters_unset_ContentsChanged:
  "new_contents \<noteq> [] \<Longrightarrow> counters_unset s \<Longrightarrow>
     counters_unset (ContentsChanged tk s new_contents)"
  by (simp add: counters_unset_def ContentsChanged_counters ContentsChanged_buttons)

lemma step_counters_unset:
  assumes u: "counters_unset s" and n: "not_an_update s x"
  shows "counters_unset (step tk s x)"
proof (cases x)
  case (Op_UpdateMatchCount number_of_matches final_update)
  from n have "\<not> accepted s number_of_matches final_update"
    unfolding Op_UpdateMatchCount by (simp add: not_an_update_def)
  then show ?thesis
    unfolding Op_UpdateMatchCount using u by (simp add: UpdateMatchCount_not_accepted)
next
  case (Op_UpdateActiveMatchOrdinal ordinal)
  from n have "ordinal < 0"
    unfolding Op_UpdateActiveMatchOrdinal by (simp add: not_an_update_def)
  then show ?thesis
    unfolding Op_UpdateActiveMatchOrdinal using u by (simp add: UpdateActiveMatchOrdinal_def)
next
  case Op_UpdateResultLabel
  show ?thesis
    unfolding Op_UpdateResultLabel using u by (simp add: counters_unset_UpdateResultLabel)
next
  case (Op_ContentsChanged new_contents)
  from n have e: "new_contents \<noteq> []"
    unfolding Op_ContentsChanged by (simp add: not_an_update_def)
  from u have "counters_unset (s\<lparr>find_text := new_contents\<rparr>)"
    by (simp add: counters_unset_find_text)
  from counters_unset_ContentsChanged [OF e this] show ?thesis
    unfolding Op_ContentsChanged by simp
qed

lemma run_counters_unset:
  "counters_unset s \<Longrightarrow> no_update_accepted tk s xs \<Longrightarrow> counters_unset (run tk s xs)"
proof (induction xs arbitrary: s)
  case Nil
  then show ?case by simp
next
  case (Cons x xs)
  from Cons.prems have n: "not_an_update s x" and r: "no_update_accepted tk (step tk s x) xs"
    by simp_all
  from step_counters_unset [OF Cons.prems(1) n] have "counters_unset (step tk s x)" .
  from Cons.IH [OF this r] show ?case by simp
qed

lemma ctor_unset: "counters_unset FindInPageView_ctor"
  by (simp add: counters_unset_def FindInPageView_ctor_def)

text \<open>
  An accepted update need not store an ordinal: \<open>UpdateMatchCount\<close> with a positive
  count writes the count only, so after it the ordinal of a new panel is still -1.
\<close>

lemma positive_count_leaves_ordinal_unset:
  "accepted FindInPageView_ctor 5 True \<and>
   match_count (UpdateMatchCount FindInPageView_ctor 5 True) = 5 \<and>
   active_match_ordinal (UpdateMatchCount FindInPageView_ctor 5 True) = - 1"
  by (simp add: accepted_def UpdateMatchCount_def ResetMatchCountBackground_def
      FindInPageView_ctor_def Let_def)

text \<open>
  C10. Immediately after construction the match count is -1 and the active match ordinal
  is -1, not 0, and the previous and next buttons are disabled: the initial ordinal is
  below the range "1-based index, 0 when there are no matches". It stays so until the
  first accepted update: after every sequence of operations from the constructed panel
  none of which is an accepted update, the match count and the ordinal are still -1 and
  both buttons are still disabled.
\<close>

theorem ctor_counters_unset:
  "match_count FindInPageView_ctor = - 1 \<and>
   active_match_ordinal FindInPageView_ctor = - 1 \<and>
   active_match_ordinal FindInPageView_ctor \<noteq> 0 \<and>
   active_match_ordinal FindInPageView_ctor < 0 \<and>
   find_previous_enabled FindInPageView_ctor = False \<and>
   find_next_enabled FindInPageView_ctor = False \<and>
   (no_update_accepted tk FindInPageView_ctor xs \<longrightarrow>
      match_count (run tk FindInPageView_ctor xs) = - 1 \<and>
      active_match_ordinal (run tk FindInPageView_ctor xs) = - 1 \<and>
      active_match_ordinal (run tk FindInPageView_ctor xs) < 0 \<and>
      find_previous_enabled (run tk FindInPageView_ctor xs) = False \<and>
      find_next_enabled (run tk FindInPageView_ctor xs) = False)"
proof -
  have a: "match_count FindInPageView_ctor = - 1 \<and>
      active_match_ordinal FindInPageView_ctor = - 1 \<and>
      find_previous_enabled FindInPageView_ctor = False \<and>
      find_next_enabled FindInPageView_ctor = False"
    by (simp add: FindInPageView_ctor_def)
  have b: "counters_unset (run tk FindInPageView_ctor xs)"
    if "no_update_accepted tk FindInPageView_ctor xs"
    using run_counters_unset [OF ctor_unset that] .
  show ?thesis using a b by (auto simp add: counters_unset_def)
qed

theorem ctor_counters_unset_witness:
  "no_update_accepted example_toolkit FindInPageView_ctor
     [Op_UpdateMatchCount (- 1) True, Op_UpdateActiveMatchOrdinal (- 1),
      Op_ContentsChanged ''ab'', Op_UpdateResultLabel] \<and>
   match_count (run example_toolkit FindInPageView_ctor
     [Op_UpdateMatchCount (- 1) True, Op_UpdateActiveMatchOrdinal (- 1),
      Op_ContentsChanged ''ab'', Op_UpdateResultLabel]) = - 1 \<and>
   active_match_ordinal (run example_toolkit FindInPageView_ctor
     [Op_UpdateMatchCount (- 1) True, Op_UpdateActiveMatchOrdinal (- 1),
      Op_ContentsChanged ''ab'', Op_UpdateResultLabel]) = - 1 \<and>
   find_previous_enabled (run example_toolkit FindInPageView_ctor
     [Op_UpdateMatchCount (- 1) True, Op_UpdateActiveMatchOrdinal (- 1),
      Op_ContentsChanged ''ab'', Op_UpdateResultLabel]) = False \<and>
   find_next_enabled (run example_toolkit FindInPageView_ctor
     [Op_UpdateMatchCount (- 1) True, Op_UpdateActiveMatchOrdinal (- 1),
      Op_ContentsChanged ''ab'', Op_UpdateResultLabel]) = False"
proof -
  let ?xs = "[Op_UpdateMatchCount (- 1) True, Op_UpdateActiveMatchOrdinal (- 1),
      Op_ContentsChanged ''ab'', Op_UpdateResultLabel]"
  have n: "no_update_accepted example_toolkit FindInPageView_ctor ?xs"
    by (simp add: not_an_update_def accepted_def)
  from n ctor_counters_unset [of example_toolkit ?xs] show ?thesis by simp
qed

end
